theory Spec2Isabelle
  imports Main "HOL-Library.Sublist"
begin

section \<open>Python values\<close>

text \<open>
  A Python \<open>str\<close> is a sequence of Unicode code points. It is modelled as a list of
  natural numbers, one per code point, so that \<open>str.strip\<close> can be given Python's own
  notion of whitespace and the non-ASCII marks the scripts print can be written down.
  \<open>ascii\<close> turns an Isabelle string literal into such a list.
\<close>

type_synonym pystr = "nat list"

definition ascii :: "string \<Rightarrow> pystr" where
  "ascii s = map of_char s"

text \<open>
  The truth value of an \<open>Optional[str]\<close>: \<open>None\<close> and the empty string are false.
  \<open>py_or x d\<close> is the Python expression \<open>x or d\<close>, and \<open>fmt x\<close> is what an f-string
  prints for \<open>{x}\<close>.
\<close>

definition truthy :: "pystr option \<Rightarrow> bool" where
  "truthy x = (case x of None \<Rightarrow> False | Some s \<Rightarrow> s \<noteq> [])"

definition py_or :: "pystr option \<Rightarrow> pystr \<Rightarrow> pystr" where
  "py_or x d = (case x of None \<Rightarrow> d | Some s \<Rightarrow> if s = [] then d else s)"

definition fmt :: "pystr option \<Rightarrow> pystr" where
  "fmt x = (case x of None \<Rightarrow> ascii ''None'' | Some s \<Rightarrow> s)"

text \<open>
  \<open>str.strip()\<close> with no argument removes leading and trailing whitespace, where a code
  point is whitespace when \<open>str.isspace\<close> holds of it. The code points are those of
  CPython's table: the ASCII controls 9 to 13 and 28 to 31, the space, NEL, the no-break
  space, and the Unicode space separators and line and paragraph separators.
\<close>

definition py_isspace :: "nat \<Rightarrow> bool" where
  "py_isspace c =
     (c \<in> set [0x09, 0x0A, 0x0B, 0x0C, 0x0D, 0x1C, 0x1D, 0x1E, 0x1F, 0x20, 0x85, 0xA0,
                0x1680, 0x2000, 0x2001, 0x2002, 0x2003, 0x2004, 0x2005, 0x2006, 0x2007,
                0x2008, 0x2009, 0x200A, 0x2028, 0x2029, 0x202F, 0x205F, 0x3000])"

definition strip :: "pystr \<Rightarrow> pystr" where
  "strip s = rev (dropWhile py_isspace (rev (dropWhile py_isspace s)))"

text \<open>\<open>sep.join(xs)\<close>.\<close>

fun join :: "pystr \<Rightarrow> pystr list \<Rightarrow> pystr" where
  "join sep [] = []"
| "join sep [x] = x"
| "join sep (x # y # ys) = x @ sep @ join sep (y # ys)"

text \<open>\<open>str(n)\<close> for a length: the decimal digits of a natural number.\<close>

fun str_nat :: "nat \<Rightarrow> pystr" where
  "str_nat n = (if n < 10 then [48 + n] else str_nat (n div 10) @ [48 + n mod 10])"

declare str_nat.simps [simp del]

text \<open>
  The exceptions the two scripts tell apart: \<open>FileNotFoundError\<close>, which the uploader
  catches on its own, and every other \<open>Exception\<close>. Each carries its message.
\<close>

datatype exn = FileNotFoundError pystr | Exception pystr

section \<open>The Storage Client and the operating system\<close>

text \<open>
  The arguments of the calls the scripts make on the SDK: \<open>CosConfig\<close>,
  \<open>put_object\<close>, \<open>upload_file\<close> and \<open>list_objects\<close>. Python does not enforce
  the \<open>str\<close> annotations, so a value that argparse may leave \<open>None\<close> is carried
  as an optional string up to the call.
\<close>

record cos_config =
  Region :: "pystr option"
  SecretId :: "pystr option"
  SecretKey :: "pystr option"
  Token :: "pystr option"

record put_request =
  put_Bucket :: "pystr option"
  put_Key :: pystr
  put_Body :: pystr
  put_StorageClass :: pystr
  put_ContentType :: pystr
  put_ACL :: "pystr option"

record upload_request =
  up_Bucket :: "pystr option"
  up_LocalFilePath :: pystr
  up_Key :: pystr
  up_PartSize :: int
  up_MAXThread :: int
  up_EnableMD5 :: bool

record list_request =
  ls_Bucket :: "pystr option"
  ls_Prefix :: pystr
  ls_Delimiter :: pystr
  ls_MaxKeys :: int

text \<open>
  The response of \<open>list_objects\<close> is a dictionary that may have a \<open>Contents\<close> entry,
  a list of dictionaries from field names to strings.
\<close>

type_synonym cos_object = "(pystr \<times> pystr) list"

record list_response =
  Contents :: "cos_object list option"

text \<open>
  What a run does to the outside, in order: the calls on the SDK (recorded when made,
  whether or not they raise) and the opening and closing of file handles (\<open>Open\<close> is
  recorded when a handle exists, that is when \<open>open\<close> returned).
\<close>

datatype event =
    CreateClient cos_config
  | Open pystr
  | Close pystr
  | PutObject put_request
  | UploadFile upload_request
  | ListObjects list_request

text \<open>
  The world a run sees: the environment variables, the file system, the standard
  library's path and MIME functions, and the behaviour of the SDK, each call of which
  either returns or raises.
\<close>

record world =
  getenv :: "pystr \<Rightarrow> pystr option"
  isfile :: "pystr \<Rightarrow> bool"
  getsize :: "pystr \<Rightarrow> int"
  basename :: "pystr \<Rightarrow> pystr"
  abspath :: "pystr \<Rightarrow> pystr"
  guess_type :: "pystr \<Rightarrow> pystr option"
  open_rb :: "pystr \<Rightarrow> exn option"
  cos_client :: "cos_config \<Rightarrow> exn option"
  put_object :: "put_request \<Rightarrow> exn option"
  upload_file :: "upload_request \<Rightarrow> exn option"
  list_objects :: "list_request \<Rightarrow> exn + list_response"

section \<open>upload\_to\_cos.py\<close>

subsection \<open>upload\_file\_to\_cos\<close>

text \<open>The parameters of \<open>upload_file_to_cos\<close>, under their own names.\<close>

record upload_params =
  bucket_name :: "pystr option"
  region :: "pystr option"
  secret_id :: "pystr option"
  secret_key :: "pystr option"
  local_path :: pystr
  key :: "pystr option"
  storage_class :: pystr
  content_type :: "pystr option"
  part_size_mb :: int
  max_threads :: int
  enable_md5 :: bool
  acl :: "pystr option"
  token :: "pystr option"

definition SMALL_FILE_THRESHOLD :: int where
  "SMALL_FILE_THRESHOLD = 5 * 1024 * 1024"

text \<open>
  Lines 72 to 73: \<open>if key is None or not key.strip(): key = os.path.basename(local_path)\<close>.
\<close>

definition resolved_key :: "world \<Rightarrow> upload_params \<Rightarrow> pystr" where
  "resolved_key w a =
     (case key a of
        None \<Rightarrow> basename w (local_path a)
      | Some k \<Rightarrow> if strip k = [] then basename w (local_path a) else k)"

text \<open>
  Lines 75 to 77: \<open>guessed_type, _ = mimetypes.guess_type(local_path)\<close>, then
  \<open>if content_type is None: content_type = guessed_type or "application/octet-stream"\<close>.
\<close>

definition resolved_content_type :: "world \<Rightarrow> upload_params \<Rightarrow> pystr" where
  "resolved_content_type w a =
     (case content_type a of
        None \<Rightarrow> py_or (guess_type w (local_path a)) (ascii ''application/octet-stream'')
      | Some ct \<Rightarrow> ct)"

text \<open>Lines 39 to 46 and 79: the configuration \<open>create_client\<close> builds.\<close>

definition client_config :: "upload_params \<Rightarrow> cos_config" where
  "client_config a =
     \<lparr>Region = region a, SecretId = secret_id a, SecretKey = secret_key a, Token = token a\<rparr>"

text \<open>Lines 89 to 97: the keyword arguments of \<open>put_object\<close>; \<open>ACL\<close> only when truthy.\<close>

definition extra :: "world \<Rightarrow> upload_params \<Rightarrow> put_request" where
  "extra w a =
     \<lparr>put_Bucket = bucket_name a,
      put_Key = resolved_key w a,
      put_Body = local_path a,
      put_StorageClass = storage_class a,
      put_ContentType = resolved_content_type w a,
      put_ACL = (if truthy (acl a) then acl a else None)\<rparr>"

text \<open>
  Lines 102 to 109: the keyword arguments of \<open>upload_file\<close>. The parameters are
  an \<open>int\<close>, an \<open>int\<close> and a \<open>bool\<close>, on which \<open>int(...)\<close> and \<open>bool(...)\<close>
  are the identity.
\<close>

definition multipart_args :: "world \<Rightarrow> upload_params \<Rightarrow> upload_request" where
  "multipart_args w a =
     \<lparr>up_Bucket = bucket_name a,
      up_LocalFilePath = local_path a,
      up_Key = resolved_key w a,
      up_PartSize = max 1 (part_size_mb a),
      up_MAXThread = max 1 (max_threads a),
      up_EnableMD5 = enable_md5 a\<rparr>"

text \<open>
  The function returns the events of the run and either the exception it raised or the
  key it returned. The \<open>with\<close> statement closes the handle when its body returns and
  when its body raises.
\<close>

definition upload_file_to_cos :: "world \<Rightarrow> upload_params \<Rightarrow> event list \<times> (exn + pystr)" where
  "upload_file_to_cos w a =
     (if \<not> isfile w (local_path a) then
        ([], Inl (FileNotFoundError (ascii ''Local file not found: '' @ local_path a)))
      else
        (case cos_client w (client_config a) of
           Some e \<Rightarrow> ([CreateClient (client_config a)], Inl e)
         | None \<Rightarrow>
             if getsize w (local_path a) \<le> SMALL_FILE_THRESHOLD then
               (case open_rb w (local_path a) of
                  Some e \<Rightarrow> ([CreateClient (client_config a)], Inl e)
                | None \<Rightarrow>
                    (case put_object w (extra w a) of
                       Some e \<Rightarrow>
                         ([CreateClient (client_config a), Open (local_path a),
                           PutObject (extra w a), Close (local_path a)], Inl e)
                     | None \<Rightarrow>
                         ([CreateClient (client_config a), Open (local_path a),
                           PutObject (extra w a), Close (local_path a)],
                          Inr (resolved_key w a))))
             else
               (case upload_file w (multipart_args w a) of
                  Some e \<Rightarrow>
                    ([CreateClient (client_config a), UploadFile (multipart_args w a)], Inl e)
                | None \<Rightarrow>
                    ([CreateClient (client_config a), UploadFile (multipart_args w a)],
                     Inr (resolved_key w a)))))"

subsection \<open>parse\_args\<close>

text \<open>
  What argparse reads off a well-formed command line: the positional path, the value
  of each option that was given, and the two switches.
\<close>

record cmdline =
  pos_local_path :: pystr
  opt_key :: "pystr option"
  opt_bucket :: "pystr option"
  opt_region :: "pystr option"
  opt_secret_id :: "pystr option"
  opt_secret_key :: "pystr option"
  opt_token :: "pystr option"
  opt_storage_class :: "pystr option"
  opt_content_type :: "pystr option"
  opt_part_size :: "int option"
  opt_threads :: "int option"
  opt_md5 :: bool
  opt_acl :: "pystr option"
  opt_dry_run :: bool

text \<open>The \<open>argparse.Namespace\<close>: \<open>args.bucket\<close> is \<open>args_bucket args\<close>.\<close>

record namespace =
  args_local_path :: pystr
  args_key :: "pystr option"
  args_bucket :: "pystr option"
  args_region :: "pystr option"
  args_secret_id :: "pystr option"
  args_secret_key :: "pystr option"
  args_token :: "pystr option"
  args_storage_class :: pystr
  args_content_type :: "pystr option"
  args_part_size :: int
  args_threads :: int
  args_md5 :: bool
  args_acl :: "pystr option"
  args_dry_run :: bool

text \<open>An option that was given wins over its default.\<close>

definition with_default :: "'a option \<Rightarrow> 'a \<Rightarrow> 'a" where
  "with_default v d = (case v of None \<Rightarrow> d | Some x \<Rightarrow> x)"

definition or_env :: "pystr option \<Rightarrow> pystr option \<Rightarrow> pystr option" where
  "or_env v e = (case v of None \<Rightarrow> e | Some x \<Rightarrow> Some x)"

text \<open>Lines 119 to 134: the parser's arguments and their defaults.\<close>

definition argparse :: "world \<Rightarrow> cmdline \<Rightarrow> namespace" where
  "argparse w argv =
     \<lparr>args_local_path = pos_local_path argv,
      args_key = opt_key argv,
      args_bucket = or_env (opt_bucket argv) (getenv w (ascii ''COS_BUCKET_NAME'')),
      args_region = or_env (opt_region argv) (getenv w (ascii ''COS_REGION'')),
      args_secret_id = or_env (opt_secret_id argv) (getenv w (ascii ''COS_SECRET_ID'')),
      args_secret_key = or_env (opt_secret_key argv) (getenv w (ascii ''COS_SECRET_KEY'')),
      args_token = or_env (opt_token argv) (getenv w (ascii ''COS_TOKEN'')),
      args_storage_class = with_default (opt_storage_class argv) (ascii ''STANDARD''),
      args_content_type = opt_content_type argv,
      args_part_size = with_default (opt_part_size argv) 8,
      args_threads = with_default (opt_threads argv) 5,
      args_md5 = opt_md5 argv,
      args_acl = opt_acl argv,
      args_dry_run = opt_dry_run argv\<rparr>"

text \<open>Lines 136 to 144: the list \<open>missing\<close>.\<close>

definition missing :: "namespace \<Rightarrow> pystr list" where
  "missing args =
     (if \<not> truthy (args_bucket args) then [ascii ''--bucket or COS_BUCKET_NAME''] else []) @
     (if \<not> truthy (args_region args) then [ascii ''--region or COS_REGION''] else []) @
     (if \<not> truthy (args_secret_id args) then [ascii ''--secret-id or COS_SECRET_ID''] else []) @
     (if \<not> truthy (args_secret_key args) then [ascii ''--secret-key or COS_SECRET_KEY''] else [])"

text \<open>\<open>Inl\<close> is the message of the \<open>SystemExit\<close> raised at line 147.\<close>

definition parse_args :: "world \<Rightarrow> cmdline \<Rightarrow> pystr + namespace" where
  "parse_args w argv =
     (let args = argparse w argv in
      if missing args \<noteq> [] then
        Inl (ascii ''Missing required configuration: '' @ join (ascii '', '') (missing args))
      else Inr args)"

subsection \<open>main\<close>

text \<open>
  A run of a script: the exit status of the process, the lines printed on standard
  output and on standard error, and the events. A \<open>SystemExit\<close> carrying a string
  prints it on standard error and ends the process with status 1.
\<close>

record run =
  exit_code :: int
  stdout :: "pystr list"
  stderr :: "pystr list"
  events :: "event list"

text \<open>Lines 172 to 186: the call of \<open>upload_file_to_cos\<close>.\<close>

definition call_params :: "namespace \<Rightarrow> upload_params" where
  "call_params args =
     \<lparr>bucket_name = args_bucket args,
      region = args_region args,
      secret_id = args_secret_id args,
      secret_key = args_secret_key args,
      local_path = args_local_path args,
      key = args_key args,
      storage_class = args_storage_class args,
      content_type = args_content_type args,
      part_size_mb = args_part_size args,
      max_threads = args_threads args,
      enable_md5 = args_md5 args,
      acl = args_acl args,
      token = args_token args\<rparr>"

text \<open>Line 156: \<open>planned_key = args.key or os.path.basename(args.local_path)\<close>.\<close>

definition planned_key :: "world \<Rightarrow> namespace \<Rightarrow> pystr" where
  "planned_key w args = py_or (args_key args) (basename w (args_local_path args))"

text \<open>Lines 164 to 169.\<close>

definition banner :: "world \<Rightarrow> namespace \<Rightarrow> pystr list" where
  "banner w args =
     [ascii ''Tencent COS Upload'',
      replicate 40 (of_char CHR ''=''),
      ascii ''Bucket: '' @ fmt (args_bucket args),
      ascii ''Region: '' @ fmt (args_region args),
      ascii ''Key: '' @ py_or (args_key args) (basename w (args_local_path args)),
      []]"

definition main :: "world \<Rightarrow> cmdline \<Rightarrow> run" where
  "main w argv =
     (case parse_args w argv of
        Inl msg \<Rightarrow> \<lparr>exit_code = 1, stdout = [], stderr = [msg], events = []\<rparr>
      | Inr args \<Rightarrow>
          if args_dry_run args then
            \<lparr>exit_code = 0,
             stdout =
               [ascii ''Dry run: would upload'',
                ascii ''  Local: '' @ abspath w (args_local_path args),
                ascii ''  Bucket: '' @ fmt (args_bucket args),
                ascii ''  Region: '' @ fmt (args_region args),
                ascii ''  Key: '' @ planned_key w args],
             stderr = [], events = []\<rparr>
          else
            (case upload_file_to_cos w (call_params args) of
               (evs, Inr obj_key) \<Rightarrow>
                 \<lparr>exit_code = 0,
                  stdout = banner w args @
                    [[0xE2, 0x153, 0x201C] @ ascii '' Upload complete'',
                     ascii ''Object Key: '' @ obj_key],
                  stderr = [], events = evs\<rparr>
             | (evs, Inl (FileNotFoundError m)) \<Rightarrow>
                 \<lparr>exit_code = 2,
                  stdout = banner w args @ [ascii ''Error: '' @ m],
                  stderr = [], events = evs\<rparr>
             | (evs, Inl (Exception m)) \<Rightarrow>
                 \<lparr>exit_code = 1,
                  stdout = banner w args @ [ascii ''Upload failed: '' @ m],
                  stderr = [], events = evs\<rparr>))"

section \<open>list\_cos\_objects.py\<close>

subsection \<open>list\_cos\_objects\<close>

text \<open>Lines 27 to 31: the configuration, built without a token.\<close>

definition lister_config :: "pystr \<Rightarrow> pystr \<Rightarrow> pystr \<Rightarrow> cos_config" where
  "lister_config reg sid skey =
     \<lparr>Region = Some reg, SecretId = Some sid, SecretKey = Some skey, Token = None\<rparr>"

text \<open>Lines 37 to 42: the keyword arguments of \<open>list_objects\<close>.\<close>

definition lister_request :: "pystr \<Rightarrow> pystr \<Rightarrow> list_request" where
  "lister_request bkt pfx =
     \<lparr>ls_Bucket = Some bkt, ls_Prefix = pfx, ls_Delimiter = [], ls_MaxKeys = 1000\<rparr>"

text \<open>
  Lines 46 to 47: the loop \<open>for obj in response['Contents']: objects.append(obj['Key'])\<close>.
  An object without a \<open>Key\<close> raises \<open>KeyError\<close>, whose message is the quoted key.
\<close>

fun append_keys :: "cos_object list \<Rightarrow> pystr list \<Rightarrow> exn + pystr list" where
  "append_keys [] objects = Inr objects"
| "append_keys (obj # rest) objects =
     (case map_of obj (ascii ''Key'') of
        None \<Rightarrow> Inl (Exception ([39] @ ascii ''Key'' @ [39]))
      | Some k \<Rightarrow> append_keys rest (objects @ [k]))"

definition str_exn :: "exn \<Rightarrow> pystr" where
  "str_exn e = (case e of FileNotFoundError m \<Rightarrow> m | Exception m \<Rightarrow> m)"

text \<open>
  The function returns the events, the lines it printed and its value, \<open>None\<close> when
  the \<open>except\<close> clause was taken.
\<close>

definition list_cos_objects ::
  "world \<Rightarrow> pystr \<Rightarrow> pystr \<Rightarrow> pystr \<Rightarrow> pystr \<Rightarrow> pystr \<Rightarrow> event list \<times> pystr list \<times> pystr list option" where
  "list_cos_objects w bkt reg sid skey pfx =
     (case cos_client w (lister_config reg sid skey) of
        Some e \<Rightarrow>
          ([CreateClient (lister_config reg sid skey)],
           [ascii ''Error listing COS objects: '' @ str_exn e], None)
      | None \<Rightarrow>
          (case list_objects w (lister_request bkt pfx) of
             Inl e \<Rightarrow>
               ([CreateClient (lister_config reg sid skey), ListObjects (lister_request bkt pfx)],
                [ascii ''Error listing COS objects: '' @ str_exn e], None)
           | Inr response \<Rightarrow>
               (case Contents response of
                  None \<Rightarrow>
                    ([CreateClient (lister_config reg sid skey),
                      ListObjects (lister_request bkt pfx)], [], Some [])
                | Some cs \<Rightarrow>
                    (case append_keys cs [] of
                       Inl e \<Rightarrow>
                         ([CreateClient (lister_config reg sid skey),
                           ListObjects (lister_request bkt pfx)],
                          [ascii ''Error listing COS objects: '' @ str_exn e], None)
                     | Inr objects \<Rightarrow>
                         ([CreateClient (lister_config reg sid skey),
                           ListObjects (lister_request bkt pfx)], [], Some objects)))))"

subsection \<open>main\<close>

text \<open>
  Lines 57 to 60 read the four settings from the environment, each with a fallback
  value written in the source. The fallback values are credentials; they are kept out
  of this development, and the lister's \<open>main\<close> takes them as a parameter.
\<close>

record fallbacks =
  fb_bucket_name :: pystr
  fb_region :: pystr
  fb_secret_id :: pystr
  fb_secret_key :: pystr

definition env_bucket_name :: "world \<Rightarrow> fallbacks \<Rightarrow> pystr" where
  "env_bucket_name w fb = with_default (getenv w (ascii ''COS_BUCKET_NAME'')) (fb_bucket_name fb)"

definition env_region :: "world \<Rightarrow> fallbacks \<Rightarrow> pystr" where
  "env_region w fb = with_default (getenv w (ascii ''COS_REGION'')) (fb_region fb)"

definition env_secret_id :: "world \<Rightarrow> fallbacks \<Rightarrow> pystr" where
  "env_secret_id w fb = with_default (getenv w (ascii ''COS_SECRET_ID'')) (fb_secret_id fb)"

definition env_secret_key :: "world \<Rightarrow> fallbacks \<Rightarrow> pystr" where
  "env_secret_key w fb = with_default (getenv w (ascii ''COS_SECRET_KEY'')) (fb_secret_key fb)"

text \<open>Lines 62 to 71.\<close>

definition lister_banner :: "world \<Rightarrow> fallbacks \<Rightarrow> pystr list" where
  "lister_banner w fb =
     [ascii ''Tencent COS Configuration Test'',
      replicate 40 (of_char CHR ''=''),
      ascii ''Bucket: '' @ env_bucket_name w fb,
      ascii ''Region: '' @ env_region w fb,
      ascii ''Secret ID: '' @ take 8 (env_secret_id w fb) @ ascii ''...'',
      [],
      ascii ''Listing objects in root directory ('' @ [34] @ ascii ''/'' @ [34] @ ascii '')...'',
      replicate 40 (of_char CHR ''-'')]"

text \<open>Lines 76 to 85: the report of a listing that succeeded.\<close>

definition report :: "pystr list \<Rightarrow> pystr list" where
  "report objects =
     (if objects \<noteq> [] then
        [[0x2713] @ ascii '' Configuration is correct! Found '' @ str_nat (length objects) @
           ascii '' object(s):''] @
        map (\<lambda>obj. ascii ''  - '' @ obj) (take 10 objects) @
        (if length objects > 10 then
           [ascii ''  ... and '' @ str_nat (length objects - 10) @ ascii '' more objects'']
         else [])
      else
        [[0x2713] @
           ascii '' Configuration is correct! Bucket is accessible but empty in root directory.'']) @
     [[], [0x2713] @ ascii '' SUCCESS: Tencent COS configuration is working correctly!'']"

definition lister_main :: "world \<Rightarrow> fallbacks \<Rightarrow> run" where
  "lister_main w fb =
     (case list_cos_objects w (env_bucket_name w fb) (env_region w fb) (env_secret_id w fb)
             (env_secret_key w fb) [] of
        (evs, out, Some objects) \<Rightarrow>
          \<lparr>exit_code = 0, stdout = lister_banner w fb @ out @ report objects,
           stderr = [], events = evs\<rparr>
      | (evs, out, None) \<Rightarrow>
          \<lparr>exit_code = 1,
           stdout = lister_banner w fb @ out @
             [[0x2717] @
                ascii '' FAILED: Unable to access COS bucket. Please check your configuration.''],
           stderr = [], events = evs\<rparr>)"

section \<open>Observations on a run\<close>

text \<open>
  The file handles still open after a sequence of events, given those open before it.
\<close>

fun live_handles :: "event list \<Rightarrow> pystr list \<Rightarrow> pystr list" where
  "live_handles [] hs = hs"
| "live_handles (Open p # es) hs = live_handles es (p # hs)"
| "live_handles (Close p # es) hs = live_handles es (remove1 p hs)"
| "live_handles (e # es) hs = live_handles es hs"

text \<open>
  A required setting is absent when neither its flag nor its environment variable
  gives it.
\<close>

definition absent :: "world \<Rightarrow> pystr option \<Rightarrow> string \<Rightarrow> bool" where
  "absent w flag var = (flag = None \<and> getenv w (ascii var) = None)"

section \<open>Concrete worlds\<close>

text \<open>
  A POSIX system, for evaluating the scripts on concrete inputs:
  \<open>posixpath.basename\<close> keeps what follows the last slash, the MIME table knows
  \<open>.zip\<close>, three files exist, and every call on the SDK succeeds.
\<close>

definition posix_basename :: "pystr \<Rightarrow> pystr" where
  "posix_basename p = rev (takeWhile (\<lambda>c. c \<noteq> 47) (rev p))"

definition zip_guess_type :: "pystr \<Rightarrow> pystr option" where
  "zip_guess_type p =
     (if drop (length p - 4) p = ascii ''.zip'' then Some (ascii ''application/zip'') else None)"

definition posix_world :: world where
  "posix_world =
     \<lparr>getenv = (\<lambda>v. None),
      isfile = (\<lambda>p. p \<in> set [ascii ''/d/a.zip'', ascii ''/d/big'', ascii ''/d/ '']),
      getsize = (\<lambda>p. if p = ascii ''/d/big'' then 5 * 1024 * 1024 + 1 else 5 * 1024 * 1024),
      basename = posix_basename,
      abspath = (\<lambda>p. p),
      guess_type = zip_guess_type,
      open_rb = (\<lambda>p. None),
      cos_client = (\<lambda>c. None),
      put_object = (\<lambda>r. None),
      upload_file = (\<lambda>r. None),
      list_objects = (\<lambda>r. Inr \<lparr>Contents = None\<rparr>)\<rparr>"

text \<open>The same system with a transport that fails on every \<open>put_object\<close>.\<close>

definition failing_world :: world where
  "failing_world = posix_world\<lparr>put_object := (\<lambda>r. Some (Exception (ascii ''reset'')))\<rparr>"

text \<open>A command line that gives the four required settings, and its upload parameters.\<close>

definition cmd :: "pystr \<Rightarrow> pystr option \<Rightarrow> bool \<Rightarrow> cmdline" where
  "cmd path k dry =
     \<lparr>pos_local_path = path, opt_key = k,
      opt_bucket = Some (ascii ''b''), opt_region = Some (ascii ''r''),
      opt_secret_id = Some (ascii ''i''), opt_secret_key = Some (ascii ''s''),
      opt_token = None, opt_storage_class = None, opt_content_type = None,
      opt_part_size = None, opt_threads = None, opt_md5 = False, opt_acl = None,
      opt_dry_run = dry\<rparr>"

definition params :: "pystr \<Rightarrow> pystr option \<Rightarrow> upload_params" where
  "params path k = call_params (argparse posix_world (cmd path k False))"

section \<open>Facts about the Python values\<close>

lemma strip_empty_iff: "strip s = [] \<longleftrightarrow> (\<forall>c\<in>set s. py_isspace c)"
proof -
  have "(\<forall>c\<in>set (dropWhile py_isspace s). py_isspace c) \<longleftrightarrow> (\<forall>c\<in>set s. py_isspace c)"
  proof
    assume h: "\<forall>c\<in>set (dropWhile py_isspace s). py_isspace c"
    have "set s = set (takeWhile py_isspace s) \<union> set (dropWhile py_isspace s)"
      by (metis set_append takeWhile_dropWhile_id)
    with h show "\<forall>c\<in>set s. py_isspace c"
      by (auto dest: set_takeWhileD)
  next
    assume "\<forall>c\<in>set s. py_isspace c"
    then show "\<forall>c\<in>set (dropWhile py_isspace s). py_isspace c"
      by (auto dest: set_dropWhileD)
  qed
  then show ?thesis
    by (simp add: strip_def dropWhile_eq_Nil_conv)
qed

lemma sublist_join: "x \<in> set xs \<Longrightarrow> sublist x (join sep xs)"
proof (induction sep xs rule: join.induct)
  case (1 sep)
  then show ?case by simp
next
  case (2 sep y)
  then show ?case by simp
next
  case (3 sep y z zs)
  show ?case
  proof (cases "x = y")
    case True
    then show ?thesis by (simp add: sublist_append_rightI)
  next
    case False
    with 3 have "sublist x (join sep (z # zs))" by simp
    then show ?thesis by (simp add: sublist_append)
  qed
qed

lemma truthy_or_env_absent: "absent w flag var \<Longrightarrow> \<not> truthy (or_env flag (getenv w (ascii var)))"
  by (simp add: absent_def or_env_def truthy_def)

lemma parse_args_Inr: "parse_args w argv = Inr args \<Longrightarrow> args = argparse w argv \<and> missing args = []"
  by (auto simp: parse_args_def Let_def split: if_splits)

lemma parse_args_Inl:
  "missing (argparse w argv) \<noteq> [] \<Longrightarrow>
   parse_args w argv =
     Inl (ascii ''Missing required configuration: '' @ join (ascii '', '') (missing (argparse w argv)))"
  by (simp add: parse_args_def Let_def)

lemma events_upload_cases:
  "fst (upload_file_to_cos w a) = [] \<or>
   fst (upload_file_to_cos w a) = [CreateClient (client_config a)] \<or>
   fst (upload_file_to_cos w a) =
     [CreateClient (client_config a), Open (local_path a), PutObject (extra w a),
      Close (local_path a)] \<and> getsize w (local_path a) \<le> SMALL_FILE_THRESHOLD \<or>
   fst (upload_file_to_cos w a) =
     [CreateClient (client_config a), UploadFile (multipart_args w a)] \<and>
     SMALL_FILE_THRESHOLD < getsize w (local_path a)"
  by (simp add: upload_file_to_cos_def split: option.splits)

lemma posix_world_simps:
  "getenv posix_world v = None"
  "isfile posix_world p = (p \<in> set [ascii ''/d/a.zip'', ascii ''/d/big'', ascii ''/d/ ''])"
  "getsize posix_world p = (if p = ascii ''/d/big'' then 5 * 1024 * 1024 + 1 else 5 * 1024 * 1024)"
  "basename posix_world = posix_basename"
  "abspath posix_world p = p"
  "guess_type posix_world = zip_guess_type"
  "open_rb posix_world p = None"
  "cos_client posix_world c = None"
  "put_object posix_world r = None"
  "upload_file posix_world u = None"
  "list_objects posix_world l = Inr \<lparr>Contents = None\<rparr>"
  by (simp_all add: posix_world_def)

lemma failing_world_simps:
  "isfile failing_world p = (p \<in> set [ascii ''/d/a.zip'', ascii ''/d/big'', ascii ''/d/ ''])"
  "getsize failing_world p = (if p = ascii ''/d/big'' then 5 * 1024 * 1024 + 1 else 5 * 1024 * 1024)"
  "open_rb failing_world p = None"
  "cos_client failing_world c = None"
  "put_object failing_world r = Some (Exception (ascii ''reset''))"
  by (simp_all add: failing_world_def posix_world_def)

lemma params_simps:
  "local_path (params p k) = p"
  "key (params p k) = k"
  "content_type (params p k) = None"
  "part_size_mb (params p k) = 8"
  "max_threads (params p k) = 5"
  by (simp_all add: params_def call_params_def argparse_def cmd_def with_default_def)

section \<open>The uploader\<close>

text \<open>
  C1. For an existing regular file whose client was constructed, the strategy is fixed
  by the size alone: at most 5 MiB (5 * 1024 * 1024 bytes), the run is the direct one,
  which opens the file and, when it opened, makes the single \<open>put_object\<close> call and
  closes the handle; above 5 MiB, the run is the one \<open>upload_file\<close> call. A file of
  exactly 5242880 bytes goes direct and one of 5242881 bytes goes multipart.
\<close>

theorem upload_strategy_by_size:
  assumes "isfile w (local_path a)"
    and "cos_client w (client_config a) = None"
  shows "(getsize w (local_path a) \<le> 5 * 1024 * 1024 \<longrightarrow>
            fst (upload_file_to_cos w a) =
              CreateClient (client_config a) #
              (if open_rb w (local_path a) = None
               then [Open (local_path a), PutObject (extra w a), Close (local_path a)]
               else []))
       \<and> (5 * 1024 * 1024 < getsize w (local_path a) \<longrightarrow>
            fst (upload_file_to_cos w a) =
              [CreateClient (client_config a), UploadFile (multipart_args w a)])
       \<and> (getsize w (local_path a) = 5242880 \<longrightarrow>
            fst (upload_file_to_cos w a) =
              CreateClient (client_config a) #
              (if open_rb w (local_path a) = None
               then [Open (local_path a), PutObject (extra w a), Close (local_path a)]
               else []))
       \<and> (getsize w (local_path a) = 5242881 \<longrightarrow>
            fst (upload_file_to_cos w a) =
              [CreateClient (client_config a), UploadFile (multipart_args w a)])"
  using assms
  by (auto simp: upload_file_to_cos_def SMALL_FILE_THRESHOLD_def split: option.splits)

theorem upload_strategy_by_size_witness:
  "fst (upload_file_to_cos posix_world (params (ascii ''/d/a.zip'') None)) =
     [CreateClient (client_config (params (ascii ''/d/a.zip'') None)),
      Open (ascii ''/d/a.zip''),
      PutObject (extra posix_world (params (ascii ''/d/a.zip'') None)),
      Close (ascii ''/d/a.zip'')]
   \<and> getsize posix_world (ascii ''/d/a.zip'') = 5 * 1024 * 1024
   \<and> fst (upload_file_to_cos posix_world (params (ascii ''/d/big'') None)) =
     [CreateClient (client_config (params (ascii ''/d/big'') None)),
      UploadFile (multipart_args posix_world (params (ascii ''/d/big'') None))]
   \<and> getsize posix_world (ascii ''/d/big'') = 5 * 1024 * 1024 + 1"
  using upload_strategy_by_size [of posix_world "params (ascii ''/d/a.zip'') None"]
    upload_strategy_by_size [of posix_world "params (ascii ''/d/big'') None"]
  by (simp add: posix_world_simps params_simps ascii_def)

lemma cmd_simps:
  "parse_args posix_world (cmd p k d) = Inr (argparse posix_world (cmd p k d))"
  "args_dry_run (argparse posix_world (cmd p k d)) = d"
  "args_key (argparse posix_world (cmd p k d)) = k"
  "args_local_path (argparse posix_world (cmd p k d)) = p"
  "opt_dry_run (cmd p k d) = d"
  by (simp_all add: parse_args_def Let_def missing_def argparse_def cmd_def or_env_def
      truthy_def ascii_def)

lemma main_not_found:
  assumes "parse_args w argv = Inr args" and "\<not> args_dry_run args"
    and "\<not> isfile w (args_local_path args)"
  shows "exit_code (main w argv) = 2 \<and> events (main w argv) = []"
  using assms by (simp add: main_def upload_file_to_cos_def call_params_def)

text \<open>
  C2. When the local path is not an existing regular file, \<open>upload_file_to_cos\<close>
  raises \<open>FileNotFoundError\<close> with no event at all before it, so no client is
  constructed and no call reaches the Storage Client; and a run of the uploader that
  gets that far (the arguments parse, and it is not a dry run) ends with exit status 2
  and no event.
\<close>

theorem missing_file_not_found:
  "(\<not> isfile w (local_path a) \<longrightarrow>
      upload_file_to_cos w a =
        ([], Inl (FileNotFoundError (ascii ''Local file not found: '' @ local_path a))))
   \<and> (parse_args w argv = Inr args \<and> \<not> args_dry_run args \<and> \<not> isfile w (args_local_path args)
        \<longrightarrow> exit_code (main w argv) = 2 \<and> events (main w argv) = [])"
  by (simp add: upload_file_to_cos_def main_not_found)

theorem missing_file_not_found_witness:
  "upload_file_to_cos posix_world (params (ascii ''/d/none'') None) =
     ([], Inl (FileNotFoundError (ascii ''Local file not found: /d/none'')))
   \<and> exit_code (main posix_world (cmd (ascii ''/d/none'') None False)) = 2
   \<and> events (main posix_world (cmd (ascii ''/d/none'') None False)) = []"
  using missing_file_not_found [of posix_world "params (ascii ''/d/none'') None"
      "cmd (ascii ''/d/none'') None False" "argparse posix_world (cmd (ascii ''/d/none'') None False)"]
  by (simp add: posix_world_simps params_simps cmd_simps ascii_def)

text \<open>
  C3. The resolved content type is the explicit override when one is given; with no
  override, the type guessed from the file name when there is one; and otherwise
  exactly \<open>application/octet-stream\<close>. It is the content type of every \<open>put_object\<close>
  call a run makes.
\<close>

theorem content_type_resolution:
  "(content_type a = Some ct \<longrightarrow> resolved_content_type w a = ct)
   \<and> (content_type a = None \<and> guess_type w (local_path a) = Some g \<and> g \<noteq> [] \<longrightarrow>
        resolved_content_type w a = g)
   \<and> (content_type a = None \<and> guess_type w (local_path a) = None \<longrightarrow>
        resolved_content_type w a = ascii ''application/octet-stream'')
   \<and> (\<forall>r. PutObject r \<in> set (fst (upload_file_to_cos w a)) \<longrightarrow>
        put_ContentType r = resolved_content_type w a)"
proof -
  have "\<forall>r. PutObject r \<in> set (fst (upload_file_to_cos w a)) \<longrightarrow>
          put_ContentType r = resolved_content_type w a"
    using events_upload_cases [of w a] by (auto simp: extra_def)
  then show ?thesis
    by (simp add: resolved_content_type_def py_or_def)
qed

theorem content_type_resolution_witness:
  "resolved_content_type posix_world
     ((params (ascii ''/d/a.zip'') None)\<lparr>content_type := Some (ascii ''text/plain'')\<rparr>) =
     ascii ''text/plain''
   \<and> resolved_content_type posix_world (params (ascii ''/d/a.zip'') None) = ascii ''application/zip''
   \<and> resolved_content_type posix_world (params (ascii ''/d/big'') None) =
       ascii ''application/octet-stream''
   \<and> PutObject (extra posix_world (params (ascii ''/d/a.zip'') None))
       \<in> set (fst (upload_file_to_cos posix_world (params (ascii ''/d/a.zip'') None)))
   \<and> put_ContentType (extra posix_world (params (ascii ''/d/a.zip'') None)) =
       ascii ''application/zip''"
proof -
  have run: "fst (upload_file_to_cos posix_world (params (ascii ''/d/a.zip'') None)) =
     [CreateClient (client_config (params (ascii ''/d/a.zip'') None)),
      Open (ascii ''/d/a.zip''),
      PutObject (extra posix_world (params (ascii ''/d/a.zip'') None)),
      Close (ascii ''/d/a.zip'')]"
    by (simp add: upload_file_to_cos_def posix_world_simps params_simps ascii_def
        SMALL_FILE_THRESHOLD_def)
  have g1: "guess_type posix_world (ascii ''/d/a.zip'') = Some (ascii ''application/zip'')"
    by (simp add: posix_world_simps zip_guess_type_def ascii_def)
  have g2: "guess_type posix_world (ascii ''/d/big'') = None"
    by (simp add: posix_world_simps zip_guess_type_def ascii_def)
  have ne: "ascii ''application/zip'' \<noteq> []"
    by (simp add: ascii_def)
  show ?thesis
    using content_type_resolution [of "(params (ascii ''/d/a.zip'') None)\<lparr>content_type := Some (ascii ''text/plain'')\<rparr>"
        "ascii ''text/plain''" posix_world]
      content_type_resolution [of "params (ascii ''/d/a.zip'') None" _ posix_world
        "ascii ''application/zip''"]
      content_type_resolution [of "params (ascii ''/d/big'') None" _ posix_world]
      run g1 g2 ne
    by (simp add: params_simps)
qed

text \<open>
  C4. When the key is absent, empty or made of whitespace only, the resolved key is the
  base name of the local path; when the key has a character that is not whitespace, the
  resolved key is the key as given. The resolved key is what \<open>upload_file_to_cos\<close>
  returns whenever it returns, and the key of every call it makes on the Storage Client.
\<close>

theorem resolved_key_cases:
  "(key a = None \<or> key a = Some [] \<or> (\<exists>k. key a = Some k \<and> (\<forall>c\<in>set k. py_isspace c)) \<longrightarrow>
      resolved_key w a = basename w (local_path a))
   \<and> (\<forall>k. key a = Some k \<and> (\<exists>c\<in>set k. \<not> py_isspace c) \<longrightarrow> resolved_key w a = k)
   \<and> (\<forall>evs k. upload_file_to_cos w a = (evs, Inr k) \<longrightarrow> k = resolved_key w a)
   \<and> (\<forall>r. PutObject r \<in> set (fst (upload_file_to_cos w a)) \<longrightarrow> put_Key r = resolved_key w a)
   \<and> (\<forall>r. UploadFile r \<in> set (fst (upload_file_to_cos w a)) \<longrightarrow> up_Key r = resolved_key w a)"
proof -
  have a: "key a = None \<or> key a = Some [] \<or> (\<exists>k. key a = Some k \<and> (\<forall>c\<in>set k. py_isspace c)) \<longrightarrow>
      resolved_key w a = basename w (local_path a)"
    by (auto simp: resolved_key_def strip_empty_iff)
  have b: "\<forall>k. key a = Some k \<and> (\<exists>c\<in>set k. \<not> py_isspace c) \<longrightarrow> resolved_key w a = k"
    by (auto simp: resolved_key_def strip_empty_iff)
  have c: "\<forall>evs k. upload_file_to_cos w a = (evs, Inr k) \<longrightarrow> k = resolved_key w a"
    by (auto simp: upload_file_to_cos_def split: if_splits option.splits)
  have d: "\<forall>r. PutObject r \<in> set (fst (upload_file_to_cos w a)) \<longrightarrow> put_Key r = resolved_key w a"
    using events_upload_cases [of w a] by (auto simp: extra_def)
  have e: "\<forall>r. UploadFile r \<in> set (fst (upload_file_to_cos w a)) \<longrightarrow> up_Key r = resolved_key w a"
    using events_upload_cases [of w a] by (auto simp: multipart_args_def)
  from a b c d e show ?thesis by blast
qed

theorem resolved_key_cases_witness:
  "resolved_key posix_world (params (ascii ''/d/a.zip'') None) = ascii ''a.zip''
   \<and> resolved_key posix_world (params (ascii ''/d/a.zip'') (Some [])) = ascii ''a.zip''
   \<and> resolved_key posix_world (params (ascii ''/d/a.zip'') (Some (ascii ''  ''))) = ascii ''a.zip''
   \<and> resolved_key posix_world (params (ascii ''/d/a.zip'') (Some (ascii ''rel/app.zip''))) =
       ascii ''rel/app.zip''
   \<and> upload_file_to_cos posix_world (params (ascii ''/d/a.zip'') (Some (ascii ''rel/app.zip''))) =
       ([CreateClient (client_config (params (ascii ''/d/a.zip'') (Some (ascii ''rel/app.zip'')))),
         Open (ascii ''/d/a.zip''),
         PutObject (extra posix_world (params (ascii ''/d/a.zip'') (Some (ascii ''rel/app.zip'')))),
         Close (ascii ''/d/a.zip'')],
        Inr (ascii ''rel/app.zip''))"
proof -
  have sp: "\<forall>c\<in>set (ascii ''  ''). py_isspace c"
    by (simp add: ascii_def py_isspace_def)
  have ns: "\<exists>c\<in>set (ascii ''rel/app.zip''). \<not> py_isspace c"
    by (simp add: ascii_def py_isspace_def)
  have bn: "basename posix_world (ascii ''/d/a.zip'') = ascii ''a.zip''"
    by (simp add: posix_world_simps posix_basename_def ascii_def)
  have run: "\<exists>k. upload_file_to_cos posix_world (params (ascii ''/d/a.zip'') (Some (ascii ''rel/app.zip''))) =
       ([CreateClient (client_config (params (ascii ''/d/a.zip'') (Some (ascii ''rel/app.zip'')))),
         Open (ascii ''/d/a.zip''),
         PutObject (extra posix_world (params (ascii ''/d/a.zip'') (Some (ascii ''rel/app.zip'')))),
         Close (ascii ''/d/a.zip'')],
        Inr k)"
    by (simp add: upload_file_to_cos_def posix_world_simps params_simps ascii_def
        SMALL_FILE_THRESHOLD_def)
  show ?thesis
    using resolved_key_cases [of "params (ascii ''/d/a.zip'') None" posix_world]
      resolved_key_cases [of "params (ascii ''/d/a.zip'') (Some [])" posix_world]
      resolved_key_cases [of "params (ascii ''/d/a.zip'') (Some (ascii ''  ''))" posix_world]
      resolved_key_cases [of "params (ascii ''/d/a.zip'') (Some (ascii ''rel/app.zip''))" posix_world]
      sp ns bn run
    by (auto simp: params_simps)
qed

text \<open>
  C5. When two or more of bucket, region, secret id and secret key are absent from both
  the flags and the environment, \<open>parse_args\<close> raises \<open>SystemExit\<close> with one
  message, the fixed heading followed by the comma-separated list \<open>missing\<close>; the
  label of every absent setting is in that list and so in the message; and the run
  ends with status 1, that one line on standard error, and no event.
\<close>

theorem missing_configuration_enumerated:
  assumes "2 \<le> length (filter (\<lambda>b. b)
             [absent w (opt_bucket argv) ''COS_BUCKET_NAME'',
              absent w (opt_region argv) ''COS_REGION'',
              absent w (opt_secret_id argv) ''COS_SECRET_ID'',
              absent w (opt_secret_key argv) ''COS_SECRET_KEY''])"
  shows "parse_args w argv =
           Inl (ascii ''Missing required configuration: '' @
                join (ascii '', '') (missing (argparse w argv)))
       \<and> (absent w (opt_bucket argv) ''COS_BUCKET_NAME'' \<longrightarrow>
            ascii ''--bucket or COS_BUCKET_NAME'' \<in> set (missing (argparse w argv)) \<and>
            sublist (ascii ''--bucket or COS_BUCKET_NAME'')
              (ascii ''Missing required configuration: '' @
               join (ascii '', '') (missing (argparse w argv))))
       \<and> (absent w (opt_region argv) ''COS_REGION'' \<longrightarrow>
            ascii ''--region or COS_REGION'' \<in> set (missing (argparse w argv)) \<and>
            sublist (ascii ''--region or COS_REGION'')
              (ascii ''Missing required configuration: '' @
               join (ascii '', '') (missing (argparse w argv))))
       \<and> (absent w (opt_secret_id argv) ''COS_SECRET_ID'' \<longrightarrow>
            ascii ''--secret-id or COS_SECRET_ID'' \<in> set (missing (argparse w argv)) \<and>
            sublist (ascii ''--secret-id or COS_SECRET_ID'')
              (ascii ''Missing required configuration: '' @
               join (ascii '', '') (missing (argparse w argv))))
       \<and> (absent w (opt_secret_key argv) ''COS_SECRET_KEY'' \<longrightarrow>
            ascii ''--secret-key or COS_SECRET_KEY'' \<in> set (missing (argparse w argv)) \<and>
            sublist (ascii ''--secret-key or COS_SECRET_KEY'')
              (ascii ''Missing required configuration: '' @
               join (ascii '', '') (missing (argparse w argv))))
       \<and> exit_code (main w argv) = 1
       \<and> stderr (main w argv) =
            [ascii ''Missing required configuration: '' @
             join (ascii '', '') (missing (argparse w argv))]
       \<and> events (main w argv) = []"
proof -
  let ?m = "missing (argparse w argv)"
  let ?msg = "ascii ''Missing required configuration: '' @ join (ascii '', '') ?m"
  have in_msg: "x \<in> set ?m \<Longrightarrow> sublist x ?msg" for x
    using sublist_join [of x ?m "ascii '', ''"] by (simp add: sublist_append)
  have b: "absent w (opt_bucket argv) ''COS_BUCKET_NAME'' \<Longrightarrow>
             ascii ''--bucket or COS_BUCKET_NAME'' \<in> set ?m"
    using truthy_or_env_absent [of w "opt_bucket argv" "''COS_BUCKET_NAME''"]
    by (simp add: missing_def argparse_def)
  have r: "absent w (opt_region argv) ''COS_REGION'' \<Longrightarrow>
             ascii ''--region or COS_REGION'' \<in> set ?m"
    using truthy_or_env_absent [of w "opt_region argv" "''COS_REGION''"]
    by (simp add: missing_def argparse_def)
  have i: "absent w (opt_secret_id argv) ''COS_SECRET_ID'' \<Longrightarrow>
             ascii ''--secret-id or COS_SECRET_ID'' \<in> set ?m"
    using truthy_or_env_absent [of w "opt_secret_id argv" "''COS_SECRET_ID''"]
    by (simp add: missing_def argparse_def)
  have k: "absent w (opt_secret_key argv) ''COS_SECRET_KEY'' \<Longrightarrow>
             ascii ''--secret-key or COS_SECRET_KEY'' \<in> set ?m"
    using truthy_or_env_absent [of w "opt_secret_key argv" "''COS_SECRET_KEY''"]
    by (simp add: missing_def argparse_def)
  have some: "absent w (opt_bucket argv) ''COS_BUCKET_NAME'' \<or>
        absent w (opt_region argv) ''COS_REGION'' \<or>
        absent w (opt_secret_id argv) ''COS_SECRET_ID'' \<or>
        absent w (opt_secret_key argv) ''COS_SECRET_KEY''"
    using assms by (auto split: if_splits)
  with b r i k have ne: "?m \<noteq> []" by fastforce
  then have p: "parse_args w argv = Inl ?msg"
    by (rule parse_args_Inl)
  then have m: "exit_code (main w argv) = 1 \<and> stderr (main w argv) = [?msg] \<and>
      events (main w argv) = []"
    by (simp add: main_def)
  from p m b r i k in_msg show ?thesis by blast
qed

theorem missing_configuration_enumerated_witness:
  "parse_args posix_world
     ((cmd (ascii ''/d/a.zip'') None False)\<lparr>opt_bucket := None, opt_secret_key := None\<rparr>) =
     Inl (ascii ''Missing required configuration: --bucket or COS_BUCKET_NAME, --secret-key or COS_SECRET_KEY'')
   \<and> exit_code (main posix_world
       ((cmd (ascii ''/d/a.zip'') None False)\<lparr>opt_bucket := None, opt_secret_key := None\<rparr>)) = 1
   \<and> events (main posix_world
       ((cmd (ascii ''/d/a.zip'') None False)\<lparr>opt_bucket := None, opt_secret_key := None\<rparr>)) = []"
proof -
  let ?argv = "(cmd (ascii ''/d/a.zip'') None False)\<lparr>opt_bucket := None, opt_secret_key := None\<rparr>"
  have ab: "absent posix_world (opt_bucket ?argv) ''COS_BUCKET_NAME''"
    "absent posix_world (opt_secret_key ?argv) ''COS_SECRET_KEY''"
    "\<not> absent posix_world (opt_region ?argv) ''COS_REGION''"
    "\<not> absent posix_world (opt_secret_id ?argv) ''COS_SECRET_ID''"
    by (simp_all add: absent_def cmd_def posix_world_simps)
  have ms: "missing (argparse posix_world ?argv) =
      [ascii ''--bucket or COS_BUCKET_NAME'', ascii ''--secret-key or COS_SECRET_KEY'']"
    by (simp add: missing_def argparse_def cmd_def or_env_def truthy_def posix_world_simps ascii_def)
  have "parse_args posix_world ?argv =
          Inl (ascii ''Missing required configuration: '' @
               join (ascii '', '') (missing (argparse posix_world ?argv)))
        \<and> exit_code (main posix_world ?argv) = 1
        \<and> events (main posix_world ?argv) = []"
    using missing_configuration_enumerated [of posix_world ?argv] ab by simp
  then show ?thesis
    unfolding ms by (simp add: ascii_def)
qed

text \<open>
  C6. A run with \<open>--dry-run\<close> whose arguments parse makes no call at all, so neither
  \<open>put_object\<close> nor \<open>upload_file\<close> is invoked, and it ends with exit status 0,
  whether or not the local file exists.
\<close>

theorem dry_run_makes_no_call:
  assumes "parse_args w argv = Inr args"
    and "opt_dry_run argv"
  shows "events (main w argv) = [] \<and> exit_code (main w argv) = 0
       \<and> (\<forall>r. PutObject r \<notin> set (events (main w argv)))
       \<and> (\<forall>r. UploadFile r \<notin> set (events (main w argv)))"
proof -
  from assms(1) have "args = argparse w argv"
    by (simp add: parse_args_Inr)
  with assms(2) have "args_dry_run args"
    by (simp add: argparse_def)
  with assms(1) show ?thesis
    by (simp add: main_def)
qed

theorem dry_run_makes_no_call_witness:
  "events (main posix_world (cmd (ascii ''/d/big'') None True)) = []
   \<and> exit_code (main posix_world (cmd (ascii ''/d/big'') None True)) = 0
   \<and> events (main posix_world (cmd (ascii ''/d/none'') None True)) = []
   \<and> exit_code (main posix_world (cmd (ascii ''/d/none'') None True)) = 0"
  using dry_run_makes_no_call [of posix_world "cmd (ascii ''/d/big'') None True"
      "argparse posix_world (cmd (ascii ''/d/big'') None True)"]
    dry_run_makes_no_call [of posix_world "cmd (ascii ''/d/none'') None True"
      "argparse posix_world (cmd (ascii ''/d/none'') None True)"]
  by (simp add: cmd_simps)

text \<open>
  C8. Whatever the world does, no file handle is open when \<open>upload_file_to_cos\<close>
  is left, by return or by exception. In the direct path, when the file opened and
  \<open>put_object\<close> raises, the handle is closed after the call and the exception is
  passed on; when \<open>put_object\<close> returns, the handle is closed after the call too.
\<close>

theorem direct_upload_closes_handle:
  "live_handles (fst (upload_file_to_cos w a)) [] = []
   \<and> (isfile w (local_path a) \<and> cos_client w (client_config a) = None
        \<and> getsize w (local_path a) \<le> SMALL_FILE_THRESHOLD
        \<and> open_rb w (local_path a) = None \<and> put_object w (extra w a) = Some e \<longrightarrow>
      upload_file_to_cos w a =
        ([CreateClient (client_config a), Open (local_path a), PutObject (extra w a),
          Close (local_path a)], Inl e))
   \<and> (isfile w (local_path a) \<and> cos_client w (client_config a) = None
        \<and> getsize w (local_path a) \<le> SMALL_FILE_THRESHOLD
        \<and> open_rb w (local_path a) = None \<and> put_object w (extra w a) = None \<longrightarrow>
      upload_file_to_cos w a =
        ([CreateClient (client_config a), Open (local_path a), PutObject (extra w a),
          Close (local_path a)], Inr (resolved_key w a)))"
proof -
  have "live_handles (fst (upload_file_to_cos w a)) [] = []"
    using events_upload_cases [of w a] by auto
  then show ?thesis
    by (simp add: upload_file_to_cos_def)
qed

theorem direct_upload_closes_handle_witness:
  "upload_file_to_cos failing_world (params (ascii ''/d/a.zip'') None) =
     ([CreateClient (client_config (params (ascii ''/d/a.zip'') None)),
       Open (ascii ''/d/a.zip''),
       PutObject (extra failing_world (params (ascii ''/d/a.zip'') None)),
       Close (ascii ''/d/a.zip'')],
      Inl (Exception (ascii ''reset'')))
   \<and> live_handles (fst (upload_file_to_cos failing_world (params (ascii ''/d/a.zip'') None))) [] = []
   \<and> live_handles
       [CreateClient (client_config (params (ascii ''/d/a.zip'') None)),
        Open (ascii ''/d/a.zip''),
        PutObject (extra failing_world (params (ascii ''/d/a.zip'') None))] [] =
       [ascii ''/d/a.zip'']"
  using direct_upload_closes_handle [of failing_world "params (ascii ''/d/a.zip'') None"
      "Exception (ascii ''reset'')"]
  by (simp add: failing_world_simps params_simps SMALL_FILE_THRESHOLD_def ascii_def)

text \<open>
  C9. For all integers \<open>part_size_mb\<close> and \<open>max_threads\<close>, zero and negative ones
  included, every \<open>upload_file\<close> call carries \<open>PartSize = max 1 part_size_mb\<close> and
  \<open>MAXThread = max 1 max_threads\<close>, both at least 1.
\<close>

theorem multipart_sizes_clamped:
  "\<forall>r. UploadFile r \<in> set (fst (upload_file_to_cos w a)) \<longrightarrow>
     up_PartSize r = max 1 (part_size_mb a) \<and> up_MAXThread r = max 1 (max_threads a)
     \<and> 1 \<le> up_PartSize r \<and> 1 \<le> up_MAXThread r"
  using events_upload_cases [of w a] by (auto simp: multipart_args_def)

theorem multipart_sizes_clamped_witness:
  "UploadFile (multipart_args posix_world
       ((params (ascii ''/d/big'') None)\<lparr>part_size_mb := 0, max_threads := - 3\<rparr>))
     \<in> set (fst (upload_file_to_cos posix_world
         ((params (ascii ''/d/big'') None)\<lparr>part_size_mb := 0, max_threads := - 3\<rparr>)))
   \<and> up_PartSize (multipart_args posix_world
       ((params (ascii ''/d/big'') None)\<lparr>part_size_mb := 0, max_threads := - 3\<rparr>)) = 1
   \<and> up_MAXThread (multipart_args posix_world
       ((params (ascii ''/d/big'') None)\<lparr>part_size_mb := 0, max_threads := - 3\<rparr>)) = 1"
proof -
  let ?a = "(params (ascii ''/d/big'') None)\<lparr>part_size_mb := 0, max_threads := - 3\<rparr>"
  have run: "fst (upload_file_to_cos posix_world ?a) =
      [CreateClient (client_config ?a), UploadFile (multipart_args posix_world ?a)]"
    by (simp add: upload_file_to_cos_def posix_world_simps params_simps ascii_def
        SMALL_FILE_THRESHOLD_def)
  then have mem: "UploadFile (multipart_args posix_world ?a)
      \<in> set (fst (upload_file_to_cos posix_world ?a))"
    by simp
  with multipart_sizes_clamped [of posix_world ?a] show ?thesis
    by auto
qed

lemma main_dry_run:
  "parse_args w argv = Inr args \<Longrightarrow> args_dry_run args \<Longrightarrow>
   stdout (main w argv) =
     [ascii ''Dry run: would upload'',
      ascii ''  Local: '' @ abspath w (args_local_path args),
      ascii ''  Bucket: '' @ fmt (args_bucket args),
      ascii ''  Region: '' @ fmt (args_region args),
      ascii ''  Key: '' @ planned_key w args]"
  by (simp add: main_def)

lemma main_uploaded:
  "parse_args w argv = Inr args \<Longrightarrow> \<not> args_dry_run args \<Longrightarrow>
   upload_file_to_cos w (call_params args) = (evs, Inr k) \<Longrightarrow>
   exit_code (main w argv) = 0 \<and> last (stdout (main w argv)) = ascii ''Object Key: '' @ k"
  by (simp add: main_def)

text \<open>
  C10, as the code has it. The key planned by a dry run (\<open>args.key or basename\<close>) and
  the key resolved by an upload agree when the key is absent, empty, or has a character
  that is not whitespace. For a key that is not empty and made of whitespace only, the
  dry run plans, and prints, the key as given, while an upload resolves the key to the
  base name of the local path; the two differ exactly when that base name is not the
  key itself. A dry run prints the planned key on its last line, and an upload that
  succeeds prints the resolved key on its last line.
\<close>

theorem dry_run_key_against_upload_key:
  "(args_key args = None \<or> args_key args = Some [] \<or>
      (\<exists>k. args_key args = Some k \<and> (\<exists>c\<in>set k. \<not> py_isspace c)) \<longrightarrow>
    planned_key w args = resolved_key w (call_params args))
   \<and> (\<forall>k. args_key args = Some k \<and> k \<noteq> [] \<and> (\<forall>c\<in>set k. py_isspace c) \<longrightarrow>
        planned_key w args = k
        \<and> resolved_key w (call_params args) = basename w (args_local_path args)
        \<and> ((planned_key w args \<noteq> resolved_key w (call_params args)) =
             (basename w (args_local_path args) \<noteq> k)))
   \<and> (parse_args w argv = Inr args \<and> args_dry_run args \<longrightarrow>
        last (stdout (main w argv)) = ascii ''  Key: '' @ planned_key w args)
   \<and> (\<forall>evs k. parse_args w argv = Inr args \<and> \<not> args_dry_run args
        \<and> upload_file_to_cos w (call_params args) = (evs, Inr k) \<longrightarrow>
        k = resolved_key w (call_params args)
        \<and> last (stdout (main w argv)) = ascii ''Object Key: '' @ resolved_key w (call_params args))"
proof -
  have a: "args_key args = None \<or> args_key args = Some [] \<or>
      (\<exists>k. args_key args = Some k \<and> (\<exists>c\<in>set k. \<not> py_isspace c)) \<longrightarrow>
    planned_key w args = resolved_key w (call_params args)"
    by (auto simp: planned_key_def resolved_key_def py_or_def call_params_def strip_empty_iff)
  have b: "\<forall>k. args_key args = Some k \<and> k \<noteq> [] \<and> (\<forall>c\<in>set k. py_isspace c) \<longrightarrow>
        planned_key w args = k
        \<and> resolved_key w (call_params args) = basename w (args_local_path args)
        \<and> ((planned_key w args \<noteq> resolved_key w (call_params args)) =
             (basename w (args_local_path args) \<noteq> k))"
    by (auto simp: planned_key_def resolved_key_def py_or_def call_params_def strip_empty_iff)
  have c: "parse_args w argv = Inr args \<and> args_dry_run args \<longrightarrow>
        last (stdout (main w argv)) = ascii ''  Key: '' @ planned_key w args"
    by (simp add: main_dry_run)
  have d: "\<forall>evs k. parse_args w argv = Inr args \<and> \<not> args_dry_run args
        \<and> upload_file_to_cos w (call_params args) = (evs, Inr k) \<longrightarrow>
        k = resolved_key w (call_params args)
        \<and> last (stdout (main w argv)) = ascii ''Object Key: '' @ resolved_key w (call_params args)"
  proof (intro allI impI)
    fix evs k
    assume h: "parse_args w argv = Inr args \<and> \<not> args_dry_run args
        \<and> upload_file_to_cos w (call_params args) = (evs, Inr k)"
    then have "k = resolved_key w (call_params args)"
      by (auto simp: upload_file_to_cos_def split: if_splits option.splits)
    with h main_uploaded [of w argv args evs k]
    show "k = resolved_key w (call_params args)
        \<and> last (stdout (main w argv)) = ascii ''Object Key: '' @ resolved_key w (call_params args)"
      by simp
  qed
  from a b c d show ?thesis by blast
qed

theorem dry_run_key_against_upload_key_witness:
  "planned_key posix_world (argparse posix_world (cmd (ascii ''/d/a.zip'') None True)) = ascii ''a.zip''
   \<and> resolved_key posix_world (params (ascii ''/d/a.zip'') None) = ascii ''a.zip''
   \<and> planned_key posix_world
        (argparse posix_world (cmd (ascii ''/d/a.zip'') (Some (ascii '' '')) True)) = ascii '' ''
   \<and> resolved_key posix_world (params (ascii ''/d/a.zip'') (Some (ascii '' ''))) = ascii ''a.zip''
   \<and> last (stdout (main posix_world (cmd (ascii ''/d/a.zip'') (Some (ascii '' '')) True))) =
        ascii ''  Key:  ''
   \<and> last (stdout (main posix_world (cmd (ascii ''/d/a.zip'') (Some (ascii '' '')) False))) =
        ascii ''Object Key: a.zip''"
proof -
  let ?p = "ascii ''/d/a.zip''"
  let ?k = "Some (ascii '' '')"
  have sp: "\<forall>c\<in>set (ascii '' ''). py_isspace c" "ascii '' '' \<noteq> []"
    by (simp_all add: ascii_def py_isspace_def)
  have bn: "basename posix_world ?p = ascii ''a.zip''"
    by (simp add: posix_world_simps posix_basename_def ascii_def)
  have run: "\<exists>evs k. upload_file_to_cos posix_world
      (call_params (argparse posix_world (cmd ?p ?k False))) = (evs, Inr k)"
    by (simp add: upload_file_to_cos_def posix_world_simps call_params_def cmd_simps ascii_def
        SMALL_FILE_THRESHOLD_def)
  have pk0: "planned_key posix_world (argparse posix_world (cmd ?p None True)) = ascii ''a.zip''"
    by (simp add: planned_key_def py_or_def cmd_simps bn)
  have t1: "planned_key posix_world (argparse posix_world (cmd ?p None True)) =
      resolved_key posix_world (call_params (argparse posix_world (cmd ?p None True)))"
    using dry_run_key_against_upload_key [of "argparse posix_world (cmd ?p None True)" posix_world]
    by (simp add: cmd_simps)
  have cp: "call_params (argparse posix_world (cmd ?p kk True)) = params ?p kk" for kk
    by (simp add: params_def call_params_def argparse_def cmd_def)
  have t2: "planned_key posix_world (argparse posix_world (cmd ?p ?k True)) = ascii '' ''
      \<and> resolved_key posix_world (params ?p ?k) = ascii ''a.zip''
      \<and> last (stdout (main posix_world (cmd ?p ?k True))) =
          ascii ''  Key: '' @ planned_key posix_world (argparse posix_world (cmd ?p ?k True))"
    using dry_run_key_against_upload_key [of "argparse posix_world (cmd ?p ?k True)" posix_world
        "cmd ?p ?k True"] sp
    by (simp add: cmd_simps cp bn)
  have t3: "last (stdout (main posix_world (cmd ?p ?k False))) =
      ascii ''Object Key: '' @ resolved_key posix_world (params ?p ?k)"
    using dry_run_key_against_upload_key [of "argparse posix_world (cmd ?p ?k False)" posix_world
        "cmd ?p ?k False"] run
    by (auto simp: cmd_simps params_def)
  have rk0: "resolved_key posix_world (params ?p None) = ascii ''a.zip''"
    using t1 pk0 by (simp add: cp)
  have cat: "ascii ''  Key: '' @ ascii '' '' = ascii ''  Key:  ''"
    "ascii ''Object Key: '' @ ascii ''a.zip'' = ascii ''Object Key: a.zip''"
    by (simp_all add: ascii_def)
  from pk0 rk0 t2 t3 show ?thesis
    by (simp add: cat)
qed

text \<open>
  The claim as it was made fails where the base name of the file is the whitespace key
  itself: for the existing file \<open>/d/\<close> followed by one space and the key of one space,
  the dry run plans that key and the upload resolves to the same key and returns it.
\<close>

theorem dry_run_key_counterexample:
  "args_key (argparse posix_world (cmd (ascii ''/d/ '') (Some (ascii '' '')) True)) =
     Some (ascii '' '')
   \<and> ascii '' '' \<noteq> []
   \<and> strip (ascii '' '') = []
   \<and> isfile posix_world (ascii ''/d/ '')
   \<and> planned_key posix_world (argparse posix_world (cmd (ascii ''/d/ '') (Some (ascii '' '')) True)) =
       ascii '' ''
   \<and> resolved_key posix_world
       (call_params (argparse posix_world (cmd (ascii ''/d/ '') (Some (ascii '' '')) False))) =
       ascii '' ''
   \<and> last (stdout (main posix_world (cmd (ascii ''/d/ '') (Some (ascii '' '')) True))) =
       ascii ''  Key:  ''
   \<and> snd (upload_file_to_cos posix_world
       (call_params (argparse posix_world (cmd (ascii ''/d/ '') (Some (ascii '' '')) False)))) =
       Inr (ascii '' '')
   \<and> last (stdout (main posix_world (cmd (ascii ''/d/ '') (Some (ascii '' '')) False))) =
       ascii ''Object Key:  ''"
proof -
  let ?p = "ascii ''/d/ ''"
  let ?k = "Some (ascii '' '')"
  have st: "strip (ascii '' '') = []" "ascii '' '' \<noteq> []"
    by (simp_all add: strip_def ascii_def py_isspace_def)
  have bn: "posix_basename ?p = ascii '' ''"
    by (simp add: posix_basename_def ascii_def)
  have f: "isfile posix_world ?p"
    by (simp add: posix_world_simps)
  have sz: "getsize posix_world ?p \<le> SMALL_FILE_THRESHOLD"
    by (simp add: posix_world_simps SMALL_FILE_THRESHOLD_def ascii_def)
  have cp: "local_path (call_params (argparse posix_world (cmd ?p ?k d))) = ?p"
    "key (call_params (argparse posix_world (cmd ?p ?k d))) = ?k" for d
    by (simp_all add: call_params_def argparse_def cmd_def)
  have pk: "planned_key posix_world (argparse posix_world (cmd ?p ?k True)) = ascii '' ''"
    using st by (simp add: planned_key_def py_or_def cmd_simps)
  have rk: "resolved_key posix_world (call_params (argparse posix_world (cmd ?p ?k False))) =
      ascii '' ''"
    using st by (simp add: resolved_key_def cp posix_world_simps bn)
  have up: "upload_file_to_cos posix_world (call_params (argparse posix_world (cmd ?p ?k False))) =
      ([CreateClient (client_config (call_params (argparse posix_world (cmd ?p ?k False)))),
        Open ?p,
        PutObject (extra posix_world (call_params (argparse posix_world (cmd ?p ?k False)))),
        Close ?p], Inr (ascii '' ''))"
    using f sz by (simp add: upload_file_to_cos_def cp posix_world_simps rk)
  have dry: "last (stdout (main posix_world (cmd ?p ?k True))) = ascii ''  Key: '' @ ascii '' ''"
    using main_dry_run [of posix_world "cmd ?p ?k True" "argparse posix_world (cmd ?p ?k True)"] pk
    by (simp add: cmd_simps)
  have real: "last (stdout (main posix_world (cmd ?p ?k False))) = ascii ''Object Key: '' @ ascii '' ''"
    using main_uploaded [of posix_world "cmd ?p ?k False" "argparse posix_world (cmd ?p ?k False)",
        OF _ _ up]
    by (simp add: cmd_simps)
  have cat: "ascii ''  Key: '' @ ascii '' '' = ascii ''  Key:  ''"
    "ascii ''Object Key: '' @ ascii '' '' = ascii ''Object Key:  ''"
    by (simp_all add: ascii_def)
  from st f pk rk up dry real show ?thesis
    by (simp add: cmd_simps cat)
qed

section \<open>The lister\<close>

text \<open>
  C7. When the client is constructed and \<open>list_objects\<close> answers with no
  \<open>Contents\<close> entry or with an empty one, \<open>list_cos_objects\<close> returns the empty
  list, not \<open>None\<close>, and prints no error; and the lister's \<open>main\<close>, which lists
  with the settings of the environment and the empty prefix, ends with exit status 0.
\<close>

theorem empty_bucket_is_success:
  "(cos_client w (lister_config reg sid skey) = None
      \<and> list_objects w (lister_request bkt pfx) = Inr resp
      \<and> (Contents resp = None \<or> Contents resp = Some []) \<longrightarrow>
    list_cos_objects w bkt reg sid skey pfx =
      ([CreateClient (lister_config reg sid skey), ListObjects (lister_request bkt pfx)],
       [], Some []))
   \<and> (cos_client w (lister_config (env_region w fb) (env_secret_id w fb) (env_secret_key w fb)) = None
      \<and> list_objects w (lister_request (env_bucket_name w fb) []) = Inr resp'
      \<and> (Contents resp' = None \<or> Contents resp' = Some []) \<longrightarrow>
    exit_code (lister_main w fb) = 0)"
proof -
  have a: "list_cos_objects w b r i k p =
      ([CreateClient (lister_config r i k), ListObjects (lister_request b p)], [], Some [])"
    if "cos_client w (lister_config r i k) = None"
      and "list_objects w (lister_request b p) = Inr rs"
      and "Contents rs = None \<or> Contents rs = Some []"
    for b r i k p rs
    using that by (auto simp: list_cos_objects_def)
  have b: "exit_code (lister_main w fb) = 0"
    if "cos_client w (lister_config (env_region w fb) (env_secret_id w fb) (env_secret_key w fb)) = None"
      and "list_objects w (lister_request (env_bucket_name w fb) []) = Inr resp'"
      and "Contents resp' = None \<or> Contents resp' = Some []"
    using a [OF that] by (simp add: lister_main_def)
  from a b show ?thesis by blast
qed

theorem empty_bucket_is_success_witness:
  "list_cos_objects posix_world (ascii ''b'') (ascii ''r'') (ascii ''i'') (ascii ''k'') [] =
     ([CreateClient (lister_config (ascii ''r'') (ascii ''i'') (ascii ''k'')),
       ListObjects (lister_request (ascii ''b'') [])], [], Some [])
   \<and> exit_code (lister_main posix_world
        \<lparr>fb_bucket_name = ascii ''b'', fb_region = ascii ''r'', fb_secret_id = ascii ''i'',
         fb_secret_key = ascii ''k''\<rparr>) = 0
   \<and> exit_code (lister_main (posix_world\<lparr>list_objects := (\<lambda>r. Inr \<lparr>Contents = Some []\<rparr>)\<rparr>)
        \<lparr>fb_bucket_name = ascii ''b'', fb_region = ascii ''r'', fb_secret_id = ascii ''i'',
         fb_secret_key = ascii ''k''\<rparr>) = 0"
  using empty_bucket_is_success [of posix_world "ascii ''r''" "ascii ''i''" "ascii ''k''"
      "ascii ''b''" "[]" "\<lparr>Contents = None\<rparr>"
      "\<lparr>fb_bucket_name = ascii ''b'', fb_region = ascii ''r'', fb_secret_id = ascii ''i'',
         fb_secret_key = ascii ''k''\<rparr>" "\<lparr>Contents = None\<rparr>"]
    empty_bucket_is_success [of "posix_world\<lparr>list_objects := (\<lambda>r. Inr \<lparr>Contents = Some []\<rparr>)\<rparr>"
      "ascii ''r''" "ascii ''i''" "ascii ''k''"
      "ascii ''b''" "[]" "\<lparr>Contents = Some []\<rparr>"
      "\<lparr>fb_bucket_name = ascii ''b'', fb_region = ascii ''r'', fb_secret_id = ascii ''i'',
         fb_secret_key = ascii ''k''\<rparr>" "\<lparr>Contents = Some []\<rparr>"]
  by (simp add: posix_world_simps posix_world_def)

end
